theory Spec2Isabelle
  imports Main
begin

section \<open>Data model\<close>

text \<open>
  The handlers of \<^verbatim>\<open>crits/campaigns/handlers.py\<close> work on documents of a document
  store. A document is a record; a collection is the list of its documents in natural
  order, so that \<^verbatim>\<open>objects(...).first()\<close> is the first match of a linear search.
\<close>

type_synonym datetime = nat

text \<open>
  A Python 3 \<^verbatim>\<open>str\<close> that the handlers take apart character by character (the aliases)
  is the list of its Unicode code points. Names, ids and messages are only compared and
  concatenated; they are kept as \<open>string\<close>.
\<close>

type_synonym py_str = "nat list"

text \<open>\<^verbatim>\<open>EmbeddedCampaign\<close>: the attribution record embedded in a top-level object.\<close>

record embedded_campaign =
  ec_name :: string
  ec_confidence :: string
  ec_description :: string
  ec_analyst :: string
  ec_date :: datetime

text \<open>An entry of \<^verbatim>\<open>crits_object.relationships\<close>.\<close>

record relationship =
  rel_type :: string
  object_id :: string
  rel_name :: string

text \<open>
  A top-level object. \<open>obj_type\<close> is its type tag (\<^verbatim>\<open>_meta['crits_type']\<close>), \<open>obj_id\<close>
  its ObjectId as a string, \<open>other_fields\<close> stands for every field of the document the
  campaign handlers never touch.
\<close>

record crits_object =
  obj_type :: string
  obj_id :: string
  campaign :: "embedded_campaign list"
  relationships :: "relationship list"
  other_fields :: "(string \<times> string) list"

text \<open>The \<^verbatim>\<open>Campaign\<close> registry document; \<open>c_id\<close> is \<open>None\<close> until the first save.\<close>

record campaign_entity =
  c_id :: "string option"
  c_name :: string
  c_description :: string
  c_aliases :: "py_str list"
  c_bucket_list :: "py_str list"
  c_tickets :: "py_str list"
  c_relationships :: "relationship list"

text \<open>The document store: the Campaign collection and the top-level objects.\<close>

record state =
  campaigns :: "campaign_entity list"
  tlos :: "crits_object list"

text \<open>Python values a caller may pass where the handler tests the type at run time;
  \<open>PyStr\<close> is a value of the type \<^verbatim>\<open>str\<close>.\<close>

datatype py_value = PyNone | PyStr py_str | PyList "py_value list" | PyInt int

datatype py_exception =
  NameError string
  | AttributeError string
  | ValidationError string
  | DoesNotExist

text \<open>
  The message of a result dictionary. The handlers build strings and, in one place, a
  list of strings; \<open>Note\<close> carries the message of an object-level mutator, whose wording
  the specification leaves open.
\<close>

datatype embed_note = Assigned | EntryNotFound | EmbedRejected

datatype message = Str string | StrList "string list" | Note embed_note

text \<open>
  The result dictionary of a handler; an absent key is \<open>None\<close>.
\<close>

record result =
  success :: bool
  message :: "message option"
  rid :: "string option"
  html :: "string option"

text \<open>The result dictionary of an object-level mutator (\<^verbatim>\<open>result['success']\<close>,
  \<^verbatim>\<open>result['message']\<close> in \<^verbatim>\<open>campaign_add\<close>).\<close>

record mut_result =
  m_success :: bool
  m_message :: message

text \<open>
  The collaborators the handlers call and that are fixed by the deployment, not by the
  handlers: the type-tag table, the schema validation of \<^verbatim>\<open>save\<close> (\<open>None\<close>: accepted,
  \<open>Some e\<close>: \<^verbatim>\<open>ValidationError(e)\<close>), the HTML rendering, the validation of the embed
  step, the relationship inverter, the ObjectId generator and the parsers of bucket
  lists and tickets.
\<close>

record env =
  class_from_type :: "string \<Rightarrow> bool"
  validate :: "crits_object \<Rightarrow> string option"
  validate_campaign :: "campaign_entity \<Rightarrow> string option"
  format_campaign :: "crits_object \<Rightarrow> embedded_campaign \<Rightarrow> string \<Rightarrow> string"
  embed_check :: "embedded_campaign \<Rightarrow> bool"
  inverse :: "string \<Rightarrow> string"
  new_object_id :: "campaign_entity list \<Rightarrow> string"
  parse_bucket_list :: "py_value \<Rightarrow> string \<Rightarrow> py_str list \<Rightarrow> py_str list"
  parse_ticket :: "py_value \<Rightarrow> string \<Rightarrow> py_str list \<Rightarrow> py_str list"

section \<open>Python truthiness\<close>

fun truthy :: "py_value \<Rightarrow> bool" where
  "truthy PyNone = False"
| "truthy (PyStr s) = (s \<noteq> [])"
| "truthy (PyList xs) = (xs \<noteq> [])"
| "truthy (PyInt n) = (n \<noteq> 0)"

text \<open>An optional string argument (\<^verbatim>\<open>ctype=None\<close>): \<^verbatim>\<open>None\<close> and \<^verbatim>\<open>''\<close> are false.\<close>

fun truthy_str :: "string option \<Rightarrow> bool" where
  "truthy_str None = False"
| "truthy_str (Some s) = (s \<noteq> [])"

section \<open>The document store\<close>

definition same_object :: "crits_object \<Rightarrow> crits_object \<Rightarrow> bool" where
  "same_object a b = (obj_type a = obj_type b \<and> obj_id a = obj_id b)"

text \<open>\<^verbatim>\<open>klass.objects(id=...).first()\<close> on the collection of the type tag.\<close>

definition objects_first :: "state \<Rightarrow> string \<Rightarrow> string \<Rightarrow> crits_object option" where
  "objects_first st tag oid =
     find (\<lambda>d. obj_type d = tag \<and> obj_id d = oid) (tlos st)"

text \<open>
  Modelled from the spec: \<^verbatim>\<open>class_from_id\<close> of \<^verbatim>\<open>crits.core.class_mapper\<close> is the Object
  Resolver, \<^verbatim>\<open>resolve(typeTag, id) -> object | NotFound\<close>: the document of that type and
  id, nothing for an unknown type tag.
\<close>

definition class_from_id :: "env \<Rightarrow> state \<Rightarrow> string \<Rightarrow> string \<Rightarrow> crits_object option" where
  "class_from_id env st tag oid =
     (if class_from_type env tag then objects_first st tag oid else None)"

text \<open>Writing a document: it replaces the stored documents it is the same as (by id),
  or is inserted at the end.\<close>

definition store_doc :: "('a \<Rightarrow> 'a \<Rightarrow> bool) \<Rightarrow> 'a \<Rightarrow> 'a list \<Rightarrow> 'a list" where
  "store_doc same doc ds =
     (case find (same doc) ds of
        None \<Rightarrow> ds @ [doc]
      | Some _ \<Rightarrow> map (\<lambda>d. if same doc d then doc else d) ds)"

definition store_object :: "crits_object \<Rightarrow> crits_object list \<Rightarrow> crits_object list" where
  "store_object obj ds = store_doc same_object obj ds"

text \<open>
  Modelled from the spec: \<^verbatim>\<open>obj.save(username=analyst)\<close> is the Document Store's
  \<^verbatim>\<open>save(object, actor) -> success | ValidationFailed(detail)\<close>. \<open>Inl e\<close> is the raised
  \<^verbatim>\<open>ValidationError(e)\<close>, and then nothing is written.
\<close>

definition save :: "env \<Rightarrow> crits_object \<Rightarrow> state \<Rightarrow> string + state" where
  "save env obj st =
     (case validate env obj of
        Some e \<Rightarrow> Inl e
      | None \<Rightarrow> Inr (st\<lparr>tlos := store_object obj (tlos st)\<rparr>))"

section \<open>Object-level campaign bookkeeping\<close>

text \<open>The first entry named \<open>n\<close> is rewritten by \<open>f\<close>, in place.\<close>

fun update_entry ::
  "string \<Rightarrow> (embedded_campaign \<Rightarrow> embedded_campaign) \<Rightarrow> embedded_campaign list
    \<Rightarrow> embedded_campaign list" where
  "update_entry n f [] = []"
| "update_entry n f (e # es) =
     (if ec_name e = n then f e # es else e # update_entry n f es)"

text \<open>The first entry named \<open>n\<close> is deleted.\<close>

fun delete_entry :: "string \<Rightarrow> embedded_campaign list \<Rightarrow> embedded_campaign list" where
  "delete_entry n [] = []"
| "delete_entry n (e # es) = (if ec_name e = n then es else e # delete_entry n es)"

definition has_campaign :: "string \<Rightarrow> crits_object \<Rightarrow> bool" where
  "has_campaign n obj = (find (\<lambda>e. ec_name e = n) (campaign obj) \<noteq> None)"

text \<open>
  Modelled from the spec: \<^verbatim>\<open>obj.add_campaign(campaign, update)\<close> of
  \<^verbatim>\<open>crits.core.crits_mongoengine\<close>, the target's own campaign-list mutator (4.2 step 3).
  If an entry with the same name exists, the merge policy (\<open>update\<close>) updates only
  confidence and description in place and keeps its analyst and date; without \<open>update\<close>
  the entry is left untouched and the call is a no-op that still reports success. If no
  entry exists a new one is appended. Where a value is embedded the embed step may
  reject it (\<open>embed_check\<close>, section 9), and then the object is unchanged. The value
  \<^verbatim>\<open>campaign_add\<close> builds always carries the caller as analyst and the clock as date;
  the merge takes neither, as it "updates only confidence and description".
\<close>

definition add_campaign_m ::
  "env \<Rightarrow> embedded_campaign \<Rightarrow> bool \<Rightarrow> crits_object \<Rightarrow> mut_result \<times> crits_object" where
  "add_campaign_m env campaign_item update obj =
     (if has_campaign (ec_name campaign_item) obj then
        (if \<not> update then (\<lparr>m_success = True, m_message = Note Assigned\<rparr>, obj)
         else if \<not> embed_check env campaign_item then
           (\<lparr>m_success = False, m_message = Note EmbedRejected\<rparr>, obj)
         else
           (\<lparr>m_success = True, m_message = Note Assigned\<rparr>,
            obj\<lparr>campaign := update_entry (ec_name campaign_item)
              (\<lambda>e. e\<lparr>ec_confidence := ec_confidence campaign_item,
                     ec_description := ec_description campaign_item\<rparr>) (campaign obj)\<rparr>))
      else if \<not> embed_check env campaign_item then
        (\<lparr>m_success = False, m_message = Note EmbedRejected\<rparr>, obj)
      else
        (\<lparr>m_success = True, m_message = Note Assigned\<rparr>,
         obj\<lparr>campaign := campaign obj @ [campaign_item]\<rparr>))"

text \<open>
  Modelled from the spec: \<^verbatim>\<open>obj.edit_campaign(campaign_item=campaign)\<close> of
  \<^verbatim>\<open>crits.core.crits_mongoengine\<close> (4.2, edit): it replaces confidence, description and
  date of the existing entry of that name, and reports an entry-level not-found when the
  target holds no such entry.
\<close>

definition edit_campaign_m :: "embedded_campaign \<Rightarrow> crits_object \<Rightarrow> mut_result \<times> crits_object" where
  "edit_campaign_m campaign_item obj =
     (if has_campaign (ec_name campaign_item) obj then
        (\<lparr>m_success = True, m_message = Note Assigned\<rparr>,
         obj\<lparr>campaign := update_entry (ec_name campaign_item)
           (\<lambda>e. e\<lparr>ec_confidence := ec_confidence campaign_item,
                  ec_description := ec_description campaign_item,
                  ec_date := ec_date campaign_item\<rparr>) (campaign obj)\<rparr>)
      else (\<lparr>m_success = False, m_message = Note EntryNotFound\<rparr>, obj))"

text \<open>
  Modelled from the spec: \<^verbatim>\<open>obj.remove_campaign(campaign)\<close> of
  \<^verbatim>\<open>crits.core.crits_mongoengine\<close> (4.2, remove): it deletes the matching entry by name,
  and reports an entry-level not-found when there is none.
\<close>

definition remove_campaign_m :: "string \<Rightarrow> crits_object \<Rightarrow> mut_result \<times> crits_object" where
  "remove_campaign_m n obj =
     (if has_campaign n obj then
        (\<lparr>m_success = True, m_message = Note Assigned\<rparr>,
         obj\<lparr>campaign := delete_entry n (campaign obj)\<rparr>)
      else (\<lparr>m_success = False, m_message = Note EntryNotFound\<rparr>, obj))"

section \<open>Campaign attribution (handlers.py, lines 538-694)\<close>

text \<open>
  \<^verbatim>\<open>campaign_addto_related\<close>: the loop over \<^verbatim>\<open>crits_object.relationships\<close>. An unknown
  type tag and an unresolvable id \<^verbatim>\<open>continue\<close>; the result of \<^verbatim>\<open>robj.add_campaign\<close> is
  not looked at; a \<^verbatim>\<open>ValidationError\<close> of \<^verbatim>\<open>robj.save\<close> is passed over.
\<close>

fun addto_related_loop ::
  "env \<Rightarrow> embedded_campaign \<Rightarrow> string \<Rightarrow> relationship list \<Rightarrow> state \<Rightarrow> state" where
  "addto_related_loop env campaign_item analyst [] st = st"
| "addto_related_loop env campaign_item analyst (r # rs) st =
     (if \<not> class_from_type env (rel_type r) then
        addto_related_loop env campaign_item analyst rs st
      else
        (case objects_first st (rel_type r) (object_id r) of
           None \<Rightarrow> addto_related_loop env campaign_item analyst rs st
         | Some robj \<Rightarrow>
             (case save env (snd (add_campaign_m env campaign_item True robj)) st of
                Inl e \<Rightarrow> addto_related_loop env campaign_item analyst rs st
              | Inr st' \<Rightarrow> addto_related_loop env campaign_item analyst rs st')))"

definition campaign_addto_related ::
  "env \<Rightarrow> crits_object \<Rightarrow> embedded_campaign \<Rightarrow> string \<Rightarrow> state \<Rightarrow> state" where
  "campaign_addto_related env crits_obj campaign_item analyst st =
     addto_related_loop env campaign_item analyst (relationships crits_obj) st"

definition failure :: "message \<Rightarrow> result" where
  "failure m = \<lparr>success = False, message = Some m, rid = None, html = None\<rparr>"

text \<open>
  \<^verbatim>\<open>campaign_add\<close>. \<open>now\<close> is the clock read by the default of
  \<^verbatim>\<open>EmbeddedCampaign.date\<close>. The handler mutates the object it resolved or was given;
  the model returns it beside the result dictionary and the store.
\<close>

definition campaign_add ::
  "env \<Rightarrow> datetime \<Rightarrow> state \<Rightarrow> string \<Rightarrow> string \<Rightarrow> string \<Rightarrow> bool \<Rightarrow> string
    \<Rightarrow> string option \<Rightarrow> string option \<Rightarrow> crits_object option \<Rightarrow> bool
    \<Rightarrow> result \<times> crits_object option \<times> state" where
  "campaign_add env now st campaign_name conf descr related analyst ctype oid obj update =
     (case
        (case obj of
           Some ob \<Rightarrow> Inr ob
         | None \<Rightarrow>
             (case (ctype, oid) of
                (Some t, Some i) \<Rightarrow>
                  (if t \<noteq> [] \<and> i \<noteq> [] then
                     (case class_from_id env st t i of
                        None \<Rightarrow> Inl (failure (Str (''Cannot find '' @ t @ ''.'')))
                      | Some ob \<Rightarrow> Inr ob)
                   else Inl (failure
                     (Str ''Object type and ID, or object instance, must be provided.'')))
              | _ \<Rightarrow> Inl (failure
                     (Str ''Object type and ID, or object instance, must be provided.''))))
      of
        Inl r \<Rightarrow> (r, None, st)
      | Inr ob \<Rightarrow>
          (let campaign_item = \<lparr>ec_name = campaign_name, ec_confidence = conf,
                 ec_description = descr, ec_analyst = analyst, ec_date = now\<rparr>;
               (res, ob') = add_campaign_m env campaign_item update ob
           in if m_success res then
                (let st' = (if related
                            then campaign_addto_related env ob' campaign_item analyst st
                            else st)
                 in case save env ob' st' of
                      Inr st'' \<Rightarrow>
                        (\<lparr>success = True, message = Some (m_message res), rid = None,
                          html = Some (format_campaign env ob' campaign_item analyst)\<rparr>,
                         Some ob', st'')
                    | Inl e \<Rightarrow> (failure (Str (''Invalid value: '' @ e)), Some ob', st'))
              else (failure (m_message res), Some ob', st)))"

text \<open>
  \<^verbatim>\<open>campaign_edit\<close>. What \<^verbatim>\<open>crits_object.edit_campaign\<close> returns is dropped (line 656);
  the handler goes on to the propagation and the save whatever the mutator reported.
\<close>

definition campaign_edit ::
  "env \<Rightarrow> state \<Rightarrow> string \<Rightarrow> string \<Rightarrow> string \<Rightarrow> string \<Rightarrow> string \<Rightarrow> datetime \<Rightarrow> bool
    \<Rightarrow> string \<Rightarrow> result \<times> state" where
  "campaign_edit env st ctype oid campaign_name conf descr dt related analyst =
     (case class_from_id env st ctype oid of
        None \<Rightarrow> (failure (Str (''Cannot find '' @ ctype @ ''.'')), st)
      | Some crits_obj \<Rightarrow>
          (let campaign_item = \<lparr>ec_name = campaign_name, ec_confidence = conf,
                 ec_description = descr, ec_analyst = analyst, ec_date = dt\<rparr>;
               crits_obj' = snd (edit_campaign_m campaign_item crits_obj);
               st' = (if related
                      then campaign_addto_related env crits_obj' campaign_item analyst st
                      else st)
           in case save env crits_obj' st' of
                Inr st'' \<Rightarrow>
                  (\<lparr>success = True, message = None, rid = None,
                    html = Some (format_campaign env crits_obj' campaign_item analyst)\<rparr>,
                   st'')
              | Inl e \<Rightarrow> (failure (Str (''Invalid value: '' @ e)), st')))"

text \<open>
  \<^verbatim>\<open>campaign_remove\<close>. What \<^verbatim>\<open>crits_object.remove_campaign\<close> returns is dropped
  (line 689) in the same way.
\<close>

definition campaign_remove ::
  "env \<Rightarrow> state \<Rightarrow> string \<Rightarrow> string \<Rightarrow> string \<Rightarrow> string \<Rightarrow> result \<times> state" where
  "campaign_remove env st ctype oid campaign_name analyst =
     (case class_from_id env st ctype oid of
        None \<Rightarrow> (failure (Str (''Cannot find '' @ ctype @ ''.'')), st)
      | Some crits_obj \<Rightarrow>
          (let crits_obj' = snd (remove_campaign_m campaign_name crits_obj)
           in case save env crits_obj' st of
                Inr st' \<Rightarrow>
                  (\<lparr>success = True, message = None, rid = None, html = None\<rparr>, st')
              | Inl e \<Rightarrow> (failure (Str (''Invalid value: '' @ e)), st)))"

section \<open>Strings\<close>

text \<open>The code points of a literal written in ASCII.\<close>

definition code_points :: "string \<Rightarrow> py_str" where
  "code_points s = map of_char s"

text \<open>
  \<^verbatim>\<open>c.isspace()\<close> of Python 3: the white-space code points of the interpreter's Unicode
  table, U+0009 to U+000D, U+001C to U+001F, U+0020, U+0085, U+00A0, U+1680, U+2000 to
  U+200A, U+2028, U+2029, U+202F, U+205F and U+3000.
\<close>

definition is_space :: "nat \<Rightarrow> bool" where
  "is_space c =
     (c \<in> set [0x09, 0x0A, 0x0B, 0x0C, 0x0D, 0x1C, 0x1D, 0x1E, 0x1F, 0x20, 0x85, 0xA0,
               0x1680, 0x2000, 0x2001, 0x2002, 0x2003, 0x2004, 0x2005, 0x2006, 0x2007,
               0x2008, 0x2009, 0x200A, 0x2028, 0x2029, 0x202F, 0x205F, 0x3000])"

text \<open>\<^verbatim>\<open>s.strip()\<close> removes the leading and the trailing white-space characters.\<close>

definition str_strip :: "py_str \<Rightarrow> py_str" where
  "str_strip s = rev (dropWhile is_space (rev (dropWhile is_space s)))"

text \<open>\<^verbatim>\<open>s.split(sep)\<close> for a separator of one character: \<^verbatim>\<open>''.split(',') == ['']\<close>.\<close>

fun str_split :: "nat \<Rightarrow> py_str \<Rightarrow> py_str list" where
  "str_split sep [] = [[]]"
| "str_split sep (c # cs) =
     (if c = sep then [] # str_split sep cs
      else (case str_split sep cs of
              [] \<Rightarrow> [[c]]
            | w # ws \<Rightarrow> (c # w) # ws))"


section \<open>The Campaign registry (handlers.py, lines 289-367)\<close>

definition same_campaign :: "campaign_entity \<Rightarrow> campaign_entity \<Rightarrow> bool" where
  "same_campaign a b = (c_id a = c_id b)"

definition store_campaign :: "campaign_entity \<Rightarrow> campaign_entity list \<Rightarrow> campaign_entity list" where
  "store_campaign c ds = store_doc same_campaign c ds"

text \<open>
  Modelled from the spec: \<^verbatim>\<open>campaign.save(username=analyst)\<close> is the Document Store's
  \<^verbatim>\<open>save\<close>; a document saved for the first time gets its id. \<open>Inl e\<close> is the raised
  \<^verbatim>\<open>ValidationError(e)\<close>.
\<close>

definition save_campaign ::
  "env \<Rightarrow> campaign_entity \<Rightarrow> state \<Rightarrow> string + campaign_entity \<times> state" where
  "save_campaign env c st =
     (case validate_campaign env c of
        Some e \<Rightarrow> Inl e
      | None \<Rightarrow>
          (let c' = (case c_id c of
                       None \<Rightarrow> c\<lparr>c_id := Some (new_object_id env (campaigns st))\<rparr>
                     | Some _ \<Rightarrow> c)
           in Inr (c', st\<lparr>campaigns := store_campaign c' (campaigns st)\<rparr>)))"

text \<open>\<^verbatim>\<open>campaign.reload()\<close>: the stored document of the same id; \<open>None\<close> is the raised
  \<^verbatim>\<open>DoesNotExist\<close>.\<close>

definition reload :: "state \<Rightarrow> campaign_entity \<Rightarrow> campaign_entity option" where
  "reload st c = find (same_campaign c) (campaigns st)"

text \<open>\<^verbatim>\<open>str(campaign.id)\<close>.\<close>

definition str_id :: "campaign_entity \<Rightarrow> string" where
  "str_id c = (case c_id c of None \<Rightarrow> ''None'' | Some i \<Rightarrow> i)"

text \<open>\<^verbatim>\<open>Campaign(name=name)\<close>: a new document, every other field at its default.\<close>

definition new_campaign :: "string \<Rightarrow> campaign_entity" where
  "new_campaign n =
     \<lparr>c_id = None, c_name = n, c_description = [], c_aliases = [], c_bucket_list = [],
      c_tickets = [], c_relationships = []\<rparr>"

text \<open>
  Modelled from the spec: \<^verbatim>\<open>campaign.edit_description(description)\<close> of
  \<^verbatim>\<open>crits.campaigns.campaign.Campaign\<close> (3, Campaign: description, bucket tags and
  tickets are fields of their own); it rewrites the description only.
\<close>

definition edit_description :: "string \<Rightarrow> campaign_entity \<Rightarrow> campaign_entity" where
  "edit_description d c = c\<lparr>c_description := d\<rparr>"

text \<open>
  Modelled from the spec: \<^verbatim>\<open>campaign.add_bucket_list(bucket_list, analyst)\<close> of
  \<^verbatim>\<open>crits.core.crits_mongoengine\<close>; it rewrites the bucket tags only.
\<close>

definition add_bucket_list :: "env \<Rightarrow> py_value \<Rightarrow> string \<Rightarrow> campaign_entity \<Rightarrow> campaign_entity" where
  "add_bucket_list env tags analyst c =
     c\<lparr>c_bucket_list := parse_bucket_list env tags analyst (c_bucket_list c)\<rparr>"

text \<open>
  Modelled from the spec: \<^verbatim>\<open>campaign.add_ticket(ticket, analyst)\<close> of
  \<^verbatim>\<open>crits.core.crits_mongoengine\<close>; it rewrites the tickets only.
\<close>

definition add_ticket :: "env \<Rightarrow> py_value \<Rightarrow> string \<Rightarrow> campaign_entity \<Rightarrow> campaign_entity" where
  "add_ticket env tickets analyst c =
     c\<lparr>c_tickets := parse_ticket env tickets analyst (c_tickets c)\<rparr>"

text \<open>
  Modelled from the spec: \<^verbatim>\<open>campaign.add_alias(final_aliases)\<close> of
  \<^verbatim>\<open>crits.campaigns.campaign.Campaign\<close> (4.1: the aliases become a deduplicated list):
  an alias the Campaign does not hold yet is appended, one it holds is skipped.
\<close>

definition add_alias :: "py_str list \<Rightarrow> campaign_entity \<Rightarrow> campaign_entity" where
  "add_alias als c =
     c\<lparr>c_aliases := fold (\<lambda>a acc. if a \<in> set acc then acc else acc @ [a]) als (c_aliases c)\<rparr>"

text \<open>
  Modelled from the spec: \<^verbatim>\<open>campaign.add_relationship(related_obj, relationship_type,
  ...)\<close> (4.1: a bidirectional relationship; the Campaign stores the type it is given, the
  related object the inverse of it). The related object's side is written to the store.
\<close>

definition add_relationship ::
  "env \<Rightarrow> campaign_entity \<Rightarrow> crits_object \<Rightarrow> string \<Rightarrow> string \<Rightarrow> state
    \<Rightarrow> campaign_entity \<times> state" where
  "add_relationship env c rel_item rtype analyst st =
     (c\<lparr>c_relationships := c_relationships c @
          [\<lparr>rel_type = obj_type rel_item, object_id = obj_id rel_item, rel_name = rtype\<rparr>]\<rparr>,
      st\<lparr>tlos := store_object
          (rel_item\<lparr>relationships := relationships rel_item @
             [\<lparr>rel_type = ''Campaign'', object_id = str_id c,
               rel_name = inverse env rtype\<rparr>]\<rparr>)
          (tlos st)\<rparr>)"

text \<open>\<^verbatim>\<open>a.strip()\<close> on an element of the aliases list: only a string has the method.\<close>

fun strip_item :: "py_value \<Rightarrow> py_exception + py_str" where
  "strip_item (PyStr s) = Inr (str_strip s)"
| "strip_item v = Inl (AttributeError ''strip'')"

text \<open>\<^verbatim>\<open>[a.strip() for a in aliases]\<close>, left to right; the first failure is raised.\<close>

fun strip_items :: "py_value list \<Rightarrow> py_exception + py_str list" where
  "strip_items [] = Inr []"
| "strip_items (a # as) =
     (case strip_item a of
        Inl e \<Rightarrow> Inl e
      | Inr s \<Rightarrow> (case strip_items as of Inl e \<Rightarrow> Inl e | Inr ss \<Rightarrow> Inr (s # ss)))"

text \<open>Lines 331-338, \<^verbatim>\<open># Adjust aliases.\<close>; \<open>0x2C\<close> is the comma.\<close>

definition adjust_aliases :: "py_value \<Rightarrow> py_exception + py_str list" where
  "adjust_aliases aliases =
     (case aliases of
        PyStr s \<Rightarrow> Inr (map str_strip (str_split 0x2C s))
      | PyList xs \<Rightarrow> strip_items xs
      | _ \<Rightarrow> Inr [])"

text \<open>
  Lines 349-367 of \<^verbatim>\<open>add_campaign\<close>: the saves. The first save and the save after
  \<^verbatim>\<open>add_relationship\<close> are outside the \<^verbatim>\<open>try\<close>, so their \<^verbatim>\<open>ValidationError\<close> is raised
  to the caller; the last one is inside.
\<close>

definition add_campaign_persist ::
  "env \<Rightarrow> state \<Rightarrow> campaign_entity \<Rightarrow> crits_object option \<Rightarrow> string option \<Rightarrow> string
    \<Rightarrow> (py_exception + result) \<times> state" where
  "add_campaign_persist env st c related_obj relationship_type analyst =
     (case save_campaign env c st of
        Inl e \<Rightarrow> (Inl (ValidationError e), st)
      | Inr (c1, st1) \<Rightarrow>
          (case
             (case related_obj of
                None \<Rightarrow> Inr (c1, st1)
              | Some ro \<Rightarrow>
                  (if truthy_str relationship_type then
                     (case add_relationship env c1 ro
                             (inverse env (case relationship_type of Some rt \<Rightarrow> rt | None \<Rightarrow> []))
                             analyst st1 of
                        (c2, st2) \<Rightarrow>
                          (case save_campaign env c2 st2 of
                             Inl e \<Rightarrow> Inl (ValidationError e, st2)
                           | Inr (c3, st3) \<Rightarrow>
                               (case reload st3 c3 of
                                  None \<Rightarrow> Inl (DoesNotExist, st3)
                                | Some c4 \<Rightarrow> Inr (c4, st3))))
                   else Inr (c1, st1)))
           of
             Inl (e, st') \<Rightarrow> (Inl e, st')
           | Inr (c5, st5) \<Rightarrow>
               (case save_campaign env c5 st5 of
                  Inl e \<Rightarrow> (Inr (failure (Str (''Invalid value: '' @ e))), st5)
                | Inr (c6, st6) \<Rightarrow>
                    (case reload st6 c6 of
                       None \<Rightarrow> (Inl DoesNotExist, st6)
                     | Some c7 \<Rightarrow>
                         (Inr \<lparr>success = True,
                               message = Some (Str ''Campaign created successfully!''),
                               rid = Some (str_id c7), html = None\<rparr>, st6)))))"

text \<open>
  \<^verbatim>\<open>add_campaign\<close>. \<open>Inl\<close> is an exception raised to the caller. Line 345 assigns to
  \<^verbatim>\<open>retVal\<close>, a name bound nowhere in the function or the module: reaching it raises
  \<^verbatim>\<open>NameError\<close>.
\<close>

definition add_campaign ::
  "env \<Rightarrow> state \<Rightarrow> string \<Rightarrow> string \<Rightarrow> py_value \<Rightarrow> string \<Rightarrow> py_value \<Rightarrow> py_value
    \<Rightarrow> string option \<Rightarrow> string option \<Rightarrow> string option
    \<Rightarrow> (py_exception + result) \<times> state" where
  "add_campaign env st name description aliases analyst bucket_list ticket
       related_id related_type relationship_type =
     (case find (\<lambda>c. c_name c = name) (campaigns st) of
        Some existing \<Rightarrow>
          (Inr \<lparr>success = False, message = Some (StrList [''Campaign already exists.'']),
                rid = Some (str_id existing), html = None\<rparr>, st)
      | None \<Rightarrow>
          (let c0 = edit_description description (new_campaign name);
               c1 = (if truthy bucket_list then add_bucket_list env bucket_list analyst c0
                     else c0);
               c2 = (if truthy ticket then add_ticket env ticket analyst c1 else c1)
           in case adjust_aliases aliases of
                Inl e \<Rightarrow> (Inl e, st)
              | Inr final_aliases \<Rightarrow>
                  (let c3 = add_alias final_aliases c2
                   in case
                        (case (related_id, related_type) of
                           (Some i, Some t) \<Rightarrow>
                             (if i \<noteq> [] \<and> t \<noteq> [] then
                                (case class_from_id env st t i of
                                   None \<Rightarrow> Inl (NameError ''retVal'')
                                 | Some ro \<Rightarrow> Inr (Some ro))
                              else Inr None)
                         | _ \<Rightarrow> Inr None)
                      of
                        Inl e \<Rightarrow> (Inl e, st)
                      | Inr related_obj \<Rightarrow>
                          add_campaign_persist env st c3 related_obj relationship_type
                            analyst)))"

section \<open>Notions used to state the properties\<close>

text \<open>The object \<^verbatim>\<open>campaign_add\<close> works on (lines 595-602): the instance it is given, or
  the one it resolves from the type tag and the id.\<close>

definition target_of ::
  "env \<Rightarrow> state \<Rightarrow> string option \<Rightarrow> string option \<Rightarrow> crits_object option
    \<Rightarrow> crits_object option" where
  "target_of env st ctype oid obj =
     (case obj of
        Some ob \<Rightarrow> Some ob
      | None \<Rightarrow>
          (case (ctype, oid) of
             (Some t, Some i) \<Rightarrow> (if t \<noteq> [] \<and> i \<noteq> [] then class_from_id env st t i else None)
           | _ \<Rightarrow> None))"




section \<open>A worked deployment\<close>

text \<open>
  Three known type tags; the schema rejects a top-level object whose \<^verbatim>\<open>value\<close> field is
  empty and a Campaign without a name; the embed step rejects an attribution without a
  campaign name.
\<close>

definition example_env :: env where
  "example_env =
     \<lparr>class_from_type = (\<lambda>t. t \<in> set [''Indicator'', ''Domain'', ''Sample'']),
      validate = (\<lambda>ob. if (''value'', []) \<in> set (other_fields ob)
                        then Some ''Field is required: value'' else None),
      validate_campaign = (\<lambda>c. if c_name c = [] then Some ''Field is required: name''
                                else None),
      format_campaign = (\<lambda>ob c a. ec_name c @ '':'' @ ec_confidence c),
      embed_check = (\<lambda>c. ec_name c \<noteq> []),
      inverse = (\<lambda>r. if r = ''Contains'' then ''Contained Within''
                      else if r = ''Contained Within'' then ''Contains'' else r),
      new_object_id = (\<lambda>cs. replicate (Suc (length cs)) CHR ''7''),
      parse_bucket_list = (\<lambda>v a old. case v of PyStr s \<Rightarrow> old @ [s] | _ \<Rightarrow> old),
      parse_ticket = (\<lambda>v a old. case v of PyStr s \<Rightarrow> old @ [s] | _ \<Rightarrow> old)\<rparr>"

text \<open>Indicator 1 is related to Domain 2, whose \<^verbatim>\<open>value\<close> is empty, and to Domain 3.\<close>

definition indicator1 :: crits_object where
  "indicator1 =
     \<lparr>obj_type = ''Indicator'', obj_id = ''1'', campaign = [],
      relationships =
        [\<lparr>rel_type = ''Domain'', object_id = ''2'', rel_name = ''Related To''\<rparr>,
         \<lparr>rel_type = ''Domain'', object_id = ''3'', rel_name = ''Related To''\<rparr>],
      other_fields = [(''value'', ''10.0.0.1'')]\<rparr>"

definition domain2 :: crits_object where
  "domain2 =
     \<lparr>obj_type = ''Domain'', obj_id = ''2'', campaign = [], relationships = [],
      other_fields = [(''value'', [])]\<rparr>"

definition domain3 :: crits_object where
  "domain3 =
     \<lparr>obj_type = ''Domain'', obj_id = ''3'', campaign = [], relationships = [],
      other_fields = [(''value'', ''example.org'')]\<rparr>"

definition campaign_foo :: campaign_entity where
  "campaign_foo =
     \<lparr>c_id = Some ''7'', c_name = ''Foo'', c_description = ''first'',
      c_aliases = [code_points ''F''],
      c_bucket_list = [], c_tickets = [], c_relationships = []\<rparr>"

definition example_state :: state where
  "example_state = \<lparr>campaigns = [campaign_foo], tlos = [indicator1, domain2, domain3]\<rparr>"

text \<open>The same store once 'Foo' has been attributed to Indicator 1 by alice at time 5.\<close>

definition foo_entry :: embedded_campaign where
  "foo_entry =
     \<lparr>ec_name = ''Foo'', ec_confidence = ''low'', ec_description = ''seen'',
      ec_analyst = ''alice'', ec_date = 5\<rparr>"

definition indicator1_foo :: crits_object where
  "indicator1_foo = indicator1\<lparr>campaign := [foo_entry]\<rparr>"

definition attributed_state :: state where
  "attributed_state =
     \<lparr>campaigns = [campaign_foo], tlos = [indicator1_foo, domain2, domain3]\<rparr>"

section \<open>Auxiliary facts\<close>

subsection \<open>The store\<close>

lemma find_append_case:
  "find P (xs @ ys) = (case find P xs of None \<Rightarrow> find P ys | Some x \<Rightarrow> Some x)"
  by (induction xs) auto

lemma find_replace_hit:
  assumes "\<exists>d\<in>set ds. same c d" "P c" "\<forall>d\<in>set ds. P d \<longrightarrow> same c d"
  shows "find P (map (\<lambda>d. if same c d then c else d) ds) = Some c"
  using assms by (induction ds) auto

lemma find_store_doc_hit:
  assumes "P c" "\<forall>d\<in>set ds. P d \<longrightarrow> same c d"
  shows "find P (store_doc same c ds) = Some c"
proof (cases "find (same c) ds")
  case None
  then have "\<forall>d\<in>set ds. \<not> same c d" by (simp add: find_None_iff)
  with assms(2) have "find P ds = None" by (auto simp: find_None_iff)
  with None assms(1) show ?thesis by (simp add: store_doc_def find_append_case)
next
  case (Some a)
  then have "\<exists>d\<in>set ds. same c d" by (auto simp: find_Some_iff)
  then have "find P (map (\<lambda>d. if same c d then c else d) ds) = Some c"
    using assms by (rule find_replace_hit [where same = same and c = c and P = P])
  with Some show ?thesis by (simp add: store_doc_def)
qed


lemma set_store_doc: "set (store_doc same c ds) \<subseteq> insert c (set ds)"
  by (auto simp: store_doc_def split: option.splits)

lemma objects_first_save_same:
  assumes "save env ob st = Inr st'"
  shows "objects_first st' (obj_type ob) (obj_id ob) = Some ob"
  using assms
  by (auto simp: save_def objects_first_def store_object_def same_object_def
      split: option.splits intro!: find_store_doc_hit)


lemma tlos_save: 
  assumes "save env ob st = Inr st'"
  shows "set (tlos st') \<subseteq> insert ob (set (tlos st))" "campaigns st' = campaigns st"
  using assms set_store_doc[of same_object ob "tlos st"]
  by (auto simp: save_def store_object_def split: option.splits)


subsection \<open>The campaign list of an object\<close>













subsection \<open>The propagation loop\<close>





lemma loop_campaigns: "campaigns (addto_related_loop env c a rs st) = campaigns st"
proof (induction rs arbitrary: st)
  case Nil
  then show ?case by simp
next
  case (Cons r rs)
  then show ?case
    by (auto simp: tlos_save(2) split: option.splits sum.splits)
qed





subsection \<open>The attribution handlers\<close>

lemma campaign_add_resolved:
  assumes "target_of env st ctype oid obj = Some ob"
  shows "campaign_add env now st n conf d rel a ctype oid obj upd =
     (let item = \<lparr>ec_name = n, ec_confidence = conf, ec_description = d, ec_analyst = a,
                   ec_date = now\<rparr>;
          res = fst (add_campaign_m env item upd ob);
          ob' = snd (add_campaign_m env item upd ob)
      in if m_success res then
           (let st' = (if rel then campaign_addto_related env ob' item a st else st)
            in case save env ob' st' of
                 Inr st'' \<Rightarrow>
                   (\<lparr>success = True, message = Some (m_message res), rid = None,
                     html = Some (format_campaign env ob' item a)\<rparr>, Some ob', st'')
               | Inl e \<Rightarrow> (failure (Str (''Invalid value: '' @ e)), Some ob', st'))
         else (failure (m_message res), Some ob', st))"
  using assms
  by (auto simp: campaign_add_def target_of_def Let_def split_beta
      split: option.splits if_splits)


lemma save_case_indep:
  "(case save env ob st1 of Inr s \<Rightarrow> f | Inl e \<Rightarrow> g e)
   = (case save env ob st2 of Inr s \<Rightarrow> f | Inl e \<Rightarrow> g e)"
  by (simp add: save_def split: option.splits)




















subsection \<open>The Campaign registry\<close>






lemma fold_dedup:
  "set (fold (\<lambda>a acc. if a \<in> set acc then acc else acc @ [a]) als acc) = set acc \<union> set als
   \<and> (distinct acc \<longrightarrow>
        distinct (fold (\<lambda>a acc. if a \<in> set acc then acc else acc @ [a]) als acc))"
  by (induction als arbitrary: acc) auto

lemma add_alias_fields:
  "c_name (add_alias als c) = c_name c" "c_id (add_alias als c) = c_id c"
  "set (c_aliases (add_alias als c)) = set (c_aliases c) \<union> set als"
  "distinct (c_aliases c) \<Longrightarrow> distinct (c_aliases (add_alias als c))"
  using fold_dedup [of als "c_aliases c"] by (simp_all add: add_alias_def)

lemma save_campaign_fields:
  assumes "save_campaign env c st = Inr (c', st')"
  shows "c_name c' = c_name c" "c_aliases c' = c_aliases c" "c_id c' \<noteq> None"
    "c_id c \<noteq> None \<Longrightarrow> c' = c"
    "campaigns st' = store_campaign c' (campaigns st)"
  using assms by (auto simp: save_campaign_def Let_def split: option.splits)

lemma reload_after_save:
  assumes "save_campaign env c st = Inr (c', st')"
  shows "reload st' c' = Some c'"
  unfolding reload_def save_campaign_fields(5) [OF assms] store_campaign_def
  by (rule find_store_doc_hit) (simp_all add: same_campaign_def)

lemma find_after_save:
  assumes "save_campaign env c st = Inr (c', st')"
    "\<forall>d\<in>set (campaigns st). P d \<longrightarrow> same_campaign c' d" "P c'"
  shows "find P (campaigns st') = Some c'"
    "\<forall>d\<in>set (campaigns st'). P d \<longrightarrow> same_campaign c' d"
proof -
  show "find P (campaigns st') = Some c'"
    unfolding save_campaign_fields(5) [OF assms(1)] store_campaign_def
    using assms(3,2) by (rule find_store_doc_hit)
  show "\<forall>d\<in>set (campaigns st'). P d \<longrightarrow> same_campaign c' d"
    unfolding save_campaign_fields(5) [OF assms(1)] store_campaign_def
    using assms(2) set_store_doc [of same_campaign c' "campaigns st"]
    by (auto simp: same_campaign_def)
qed

lemma add_relationship_fields:
  assumes "add_relationship env c ro rt a st = (c', st')"
  shows "c_name c' = c_name c" "c_aliases c' = c_aliases c" "c_id c' = c_id c"
    "campaigns st' = campaigns st"
  using assms by (auto simp: add_relationship_def)

lemma add_campaign_persist_stored:
  assumes run: "add_campaign_persist env st c related_obj rtype a = (Inr r, st')"
    and ok: "success r"
    and free: "\<forall>d\<in>set (campaigns st). c_name d \<noteq> c_name c"
  shows "\<exists>c'. find (\<lambda>d. c_name d = c_name c) (campaigns st') = Some c'
           \<and> c_aliases c' = c_aliases c \<and> rid r = Some (str_id c')"
proof (cases "save_campaign env c st")
  case (Inl e)
  with run show ?thesis by (simp add: add_campaign_persist_def)
next
  case (Inr p)
  obtain c1 st1 where p: "p = (c1, st1)" by (cases p)
  with Inr have s1: "save_campaign env c st = Inr (c1, st1)" by simp
  let ?P = "\<lambda>d. c_name d = c_name c"
  note f1 = save_campaign_fields [OF s1]
  have i1: "find ?P (campaigns st1) = Some c1"
      "\<forall>d\<in>set (campaigns st1). ?P d \<longrightarrow> same_campaign c1 d"
    using find_after_save [OF s1, of ?P] free f1(1) by simp_all
  have last: "\<exists>c'. find ?P (campaigns st') = Some c' \<and> c_aliases c' = c_aliases c
                \<and> rid r = Some (str_id c')"
    if fin: "(case save_campaign env c5 st5 of
                  Inl e \<Rightarrow> (Inr (failure (Str (''Invalid value: '' @ e))), st5)
                | Inr (c6, st6) \<Rightarrow>
                    (case reload st6 c6 of
                       None \<Rightarrow> (Inl DoesNotExist, st6)
                     | Some c7 \<Rightarrow>
                         (Inr \<lparr>success = True,
                               message = Some (Str ''Campaign created successfully!''),
                               rid = Some (str_id c7), html = None\<rparr>, st6))) = (Inr r, st')"
      and i5: "\<forall>d\<in>set (campaigns st5). ?P d \<longrightarrow> same_campaign c5 d"
      and n5: "c_name c5 = c_name c" "c_aliases c5 = c_aliases c" "c_id c5 \<noteq> None"
    for c5 st5
  proof (cases "save_campaign env c5 st5")
    case (Inl e)
    with fin ok show ?thesis by (auto simp: failure_def)
  next
    case (Inr p6)
    obtain c6 st6 where p6: "p6 = (c6, st6)" by (cases p6)
    with Inr have s6: "save_campaign env c5 st5 = Inr (c6, st6)" by simp
    have e6: "c6 = c5" using save_campaign_fields(4) [OF s6] n5(3) by simp
    have "find ?P (campaigns st6) = Some c6"
      using find_after_save(1) [OF s6, of ?P] i5 n5(1) e6 by simp
    moreover have "reload st6 c6 = Some c6" using s6 by (rule reload_after_save)
    ultimately show ?thesis using fin s6 e6 n5 by auto
  qed
  show ?thesis
  proof (cases "\<exists>ro. related_obj = Some ro \<and> truthy_str rtype")
    case False
    then have "(case save_campaign env c1 st1 of
                  Inl e \<Rightarrow> (Inr (failure (Str (''Invalid value: '' @ e))), st1)
                | Inr (c6, st6) \<Rightarrow>
                    (case reload st6 c6 of
                       None \<Rightarrow> (Inl DoesNotExist, st6)
                     | Some c7 \<Rightarrow>
                         (Inr \<lparr>success = True,
                               message = Some (Str ''Campaign created successfully!''),
                               rid = Some (str_id c7), html = None\<rparr>, st6))) = (Inr r, st')"
      using run s1 by (cases related_obj) (auto simp: add_campaign_persist_def)
    then show ?thesis using i1(2) f1(1,2,3) by (rule last)
  next
    case True
    then obtain ro where ro: "related_obj = Some ro" "truthy_str rtype" by blast
    obtain c2 st2 where ar: "add_relationship env c1 ro
        (inverse env (case rtype of Some rt \<Rightarrow> rt | None \<Rightarrow> [])) a st1 = (c2, st2)"
      by (cases "add_relationship env c1 ro
        (inverse env (case rtype of Some rt \<Rightarrow> rt | None \<Rightarrow> [])) a st1")
    note f2 = add_relationship_fields [OF ar]
    show ?thesis
    proof (cases "save_campaign env c2 st2")
      case (Inl e)
      then show ?thesis using run s1 ro ar by (simp add: add_campaign_persist_def)
    next
      case r3: (Inr p3)
      obtain c3 st3 where p3: "p3 = (c3, st3)" by (cases p3)
      with r3 have s3: "save_campaign env c2 st2 = Inr (c3, st3)" by simp
      have e3: "c3 = c2" using save_campaign_fields(4) [OF s3] f2(3) f1(3) by simp
      have i2: "\<forall>d\<in>set (campaigns st2). ?P d \<longrightarrow> same_campaign c3 d"
        using i1(2) f2 e3 by (simp add: same_campaign_def)
      have i3: "\<forall>d\<in>set (campaigns st3). ?P d \<longrightarrow> same_campaign c3 d"
        using find_after_save(2) [OF s3 i2] e3 f2(1) f1(1) by simp
      have rl: "reload st3 c3 = Some c3" using s3 by (rule reload_after_save)
      have "(case save_campaign env c3 st3 of
                  Inl e \<Rightarrow> (Inr (failure (Str (''Invalid value: '' @ e))), st3)
                | Inr (c6, st6) \<Rightarrow>
                    (case reload st6 c6 of
                       None \<Rightarrow> (Inl DoesNotExist, st6)
                     | Some c7 \<Rightarrow>
                         (Inr \<lparr>success = True,
                               message = Some (Str ''Campaign created successfully!''),
                               rid = Some (str_id c7), html = None\<rparr>, st6))) = (Inr r, st')"
        using run s1 ro ar s3 rl by (simp add: add_campaign_persist_def)
      then show ?thesis using i3
      proof (rule last)
        show "c_name c3 = c_name c" "c_aliases c3 = c_aliases c" "c_id c3 \<noteq> None"
          using e3 f2 f1 by simp_all
      qed
    qed
  qed
qed

lemma built_campaign_fields:
  "c_name (add_alias als (if tt then add_ticket env tk an
       (if tb then add_bucket_list env bl an (edit_description d (new_campaign n))
        else edit_description d (new_campaign n))
     else (if tb then add_bucket_list env bl an (edit_description d (new_campaign n))
        else edit_description d (new_campaign n)))) = n"
  "set (c_aliases (add_alias als (if tt then add_ticket env tk an
       (if tb then add_bucket_list env bl an (edit_description d (new_campaign n))
        else edit_description d (new_campaign n))
     else (if tb then add_bucket_list env bl an (edit_description d (new_campaign n))
        else edit_description d (new_campaign n))))) = set als"
  "distinct (c_aliases (add_alias als (if tt then add_ticket env tk an
       (if tb then add_bucket_list env bl an (edit_description d (new_campaign n))
        else edit_description d (new_campaign n))
     else (if tb then add_bucket_list env bl an (edit_description d (new_campaign n))
        else edit_description d (new_campaign n)))))"
  by (simp_all add: add_alias_fields add_ticket_def add_bucket_list_def edit_description_def
      new_campaign_def)

lemma add_campaign_created:
  assumes run: "add_campaign env st name descr aliases analyst bl tk ri rt rlt = (Inr r, st')"
    and ok: "success r"
  shows "\<exists>als c'. adjust_aliases aliases = Inr als
           \<and> find (\<lambda>d. c_name d = name) (campaigns st') = Some c'
           \<and> set (c_aliases c') = set als \<and> distinct (c_aliases c')
           \<and> rid r = Some (str_id c')"
proof -
  have free: "find (\<lambda>c. c_name c = name) (campaigns st) = None"
    using run ok by (cases "find (\<lambda>c. c_name c = name) (campaigns st)")
      (auto simp: add_campaign_def)
  then have free': "\<forall>d\<in>set (campaigns st). c_name d \<noteq> name"
    by (simp add: find_None_iff)
  obtain als where als: "adjust_aliases aliases = Inr als"
    using run free by (cases "adjust_aliases aliases") (auto simp: add_campaign_def Let_def)
  let ?c0 = "edit_description descr (new_campaign name)"
  let ?c1 = "if truthy bl then add_bucket_list env bl analyst ?c0 else ?c0"
  let ?c3 = "add_alias als (if truthy tk then add_ticket env tk analyst ?c1 else ?c1)"
  obtain ro where pr: "add_campaign_persist env st ?c3 ro rlt analyst = (Inr r, st')"
    using run free als
    by (auto simp: add_campaign_def Let_def split: option.splits if_splits sum.splits)
  have nm: "c_name ?c3 = name" by (rule built_campaign_fields)
  from add_campaign_persist_stored [OF pr ok] free' nm
  obtain c' where "find (\<lambda>d. c_name d = name) (campaigns st') = Some c'"
    "c_aliases c' = c_aliases ?c3" "rid r = Some (str_id c')" by auto
  with als built_campaign_fields(2,3) [of als "truthy tk" env tk analyst "truthy bl" bl descr name]
  show ?thesis by auto
qed

lemma add_campaign_persist_succeeds:
  assumes "\<forall>x. c_name x = c_name c \<longrightarrow> validate_campaign env x = None"
  shows "\<exists>r st'. add_campaign_persist env st c None rlt a = (Inr r, st') \<and> success r"
proof -
  have v: "validate_campaign env c = None" using assms by simp
  then obtain c1 st1 where s1: "save_campaign env c st = Inr (c1, st1)"
    by (simp add: save_campaign_def Let_def)
  have "validate_campaign env c1 = None"
    using assms save_campaign_fields(1) [OF s1] by simp
  then obtain c6 st6 where s6: "save_campaign env c1 st1 = Inr (c6, st6)"
    by (simp add: save_campaign_def Let_def)
  from reload_after_save [OF s6] s1 s6 show ?thesis
    by (simp add: add_campaign_persist_def)
qed

lemma add_campaign_succeeds:
  assumes free: "\<forall>d\<in>set (campaigns st). c_name d \<noteq> name"
    and norel: "ri = None \<or> rt = None"
    and al: "adjust_aliases aliases = Inr als"
    and val: "\<forall>x. c_name x = name \<longrightarrow> validate_campaign env x = None"
  shows "\<exists>r st'. add_campaign env st name descr aliases analyst bl tk ri rt rlt = (Inr r, st')
           \<and> success r"
proof -
  from free have f: "find (\<lambda>c. c_name c = name) (campaigns st) = None"
    by (simp add: find_None_iff)
  let ?c0 = "edit_description descr (new_campaign name)"
  let ?c1 = "if truthy bl then add_bucket_list env bl analyst ?c0 else ?c0"
  let ?c3 = "add_alias als (if truthy tk then add_ticket env tk analyst ?c1 else ?c1)"
  have nm: "c_name ?c3 = name" by (rule built_campaign_fields)
  have "add_campaign env st name descr aliases analyst bl tk ri rt rlt
        = add_campaign_persist env st ?c3 None rlt analyst"
    using f norel al by (auto simp: add_campaign_def Let_def split: option.splits)
  moreover have "\<exists>r st'. add_campaign_persist env st ?c3 None rlt analyst = (Inr r, st')
      \<and> success r"
    using val nm by (intro add_campaign_persist_succeeds) simp
  ultimately show ?thesis by simp
qed

subsection \<open>Stripping\<close>




lemma adjust_aliases_other:
  assumes "\<forall>s. aliases \<noteq> PyStr s" "\<forall>xs. aliases \<noteq> PyList xs"
  shows "adjust_aliases aliases = Inr []"
  using assms by (cases aliases) (simp_all add: adjust_aliases_def)

lemma add_campaign_aliases_cong:
  assumes "adjust_aliases al1 = adjust_aliases al2"
  shows "add_campaign env st name descr al1 analyst bl tk ri rt rlt
       = add_campaign env st name descr al2 analyst bl tk ri rt rlt"
  by (simp add: add_campaign_def assms Let_def split: option.splits)









subsection \<open>Unfolding the worked deployment\<close>

lemmas example_defs = example_env_def example_state_def indicator1_def domain2_def domain3_def
  campaign_foo_def foo_entry_def indicator1_foo_def attributed_state_def

lemmas create_defs = add_campaign_def add_campaign_persist_def save_campaign_def
  store_campaign_def store_doc_def same_campaign_def reload_def str_id_def new_campaign_def
  edit_description_def add_bucket_list_def add_ticket_def add_alias_def adjust_aliases_def
  str_strip_def is_space_def code_points_def failure_def Let_def

section \<open>Properties\<close>

text \<open>
  C9. Called with no object instance and with the type tag or the object id missing
  (\<^verbatim>\<open>None\<close> or empty), \<^verbatim>\<open>campaign_add\<close> returns the failure with the message
  'Object type and ID, or object instance, must be provided.'; no object is resolved and
  the store is returned as it was, whatever it holds.
\<close>

theorem campaign_add_needs_target:
  assumes "\<not> (truthy_str ctype \<and> truthy_str oid)"
  shows "campaign_add env now st campaign_name conf descr related analyst ctype oid None update
         = (\<lparr>success = False,
              message = Some (Str ''Object type and ID, or object instance, must be provided.''),
              rid = None, html = None\<rparr>, None, st)"
  using assms by (cases ctype; cases oid) (auto simp: campaign_add_def failure_def)

theorem campaign_add_needs_target_witness:
  "\<not> (truthy_str None \<and> truthy_str (Some ''1''))
   \<and> campaign_add example_env 5 example_state ''Foo'' ''low'' ''seen'' True ''alice''
         None (Some ''1'') None True
       = (\<lparr>success = False,
            message = Some (Str ''Object type and ID, or object instance, must be provided.''),
            rid = None, html = None\<rparr>, None, example_state)"
  using campaign_add_needs_target [of None "Some ''1''" example_env 5 example_state
      "''Foo''" "''low''" "''seen''" True "''alice''" True]
  by simp



text \<open>
  C6 (amended). \<^verbatim>\<open>campaign_edit\<close> fails with the target-level 'Cannot find <ctype>.' when
  the target does not resolve, and leaves the store as it was. When the target resolves
  and holds no entry of the campaign's name, the handler drops what \<^verbatim>\<open>edit_campaign\<close>
  reports and goes on to the save: the result is the success dictionary when the save of
  the target is accepted, the 'Invalid value' failure when it is rejected. No result on a
  resolved target carries the entry-level not-found.
\<close>

theorem campaign_edit_outcomes:
  "(class_from_id env st ctype oid = None \<longrightarrow>
      campaign_edit env st ctype oid n conf d dt rel a
        = (\<lparr>success = False, message = Some (Str (''Cannot find '' @ ctype @ ''.'')),
            rid = None, html = None\<rparr>, st))
   \<and> (class_from_id env st ctype oid = Some ob \<and> \<not> has_campaign n ob \<longrightarrow>
      fst (campaign_edit env st ctype oid n conf d dt rel a)
        = (case validate env ob of
             None \<Rightarrow> \<lparr>success = True, message = None, rid = None,
                       html = Some (format_campaign env ob
                         \<lparr>ec_name = n, ec_confidence = conf, ec_description = d,
                           ec_analyst = a, ec_date = dt\<rparr> a)\<rparr>
           | Some e \<Rightarrow> \<lparr>success = False, message = Some (Str (''Invalid value: '' @ e)),
                         rid = None, html = None\<rparr>))
   \<and> (class_from_id env st ctype oid \<noteq> None \<longrightarrow>
      message (fst (campaign_edit env st ctype oid n conf d dt rel a))
        \<noteq> Some (Note EntryNotFound))"
  by (auto simp: campaign_edit_def edit_campaign_m_def failure_def save_def Let_def
      split: option.splits)

theorem campaign_edit_outcomes_witness:
  "campaign_edit example_env example_state ''Actor'' ''1'' ''Foo'' ''high'' ''x'' 9 False ''alice''
     = (\<lparr>success = False, message = Some (Str ''Cannot find Actor.''),
         rid = None, html = None\<rparr>, example_state)
   \<and> fst (campaign_edit example_env example_state ''Indicator'' ''1'' ''Foo'' ''high'' ''x'' 9
          False ''alice'')
     = \<lparr>success = True, message = None, rid = None, html = Some ''Foo:high''\<rparr>"
proof -
  have a: "class_from_id example_env example_state ''Actor'' ''1'' = None"
    by (simp add: class_from_id_def example_env_def)
  have b: "class_from_id example_env example_state ''Indicator'' ''1'' = Some indicator1"
    by (simp add: class_from_id_def objects_first_def example_defs)
  have c: "\<not> has_campaign ''Foo'' indicator1"
    by (simp add: has_campaign_def indicator1_def)
  have v: "validate example_env indicator1 = None" by (simp add: example_defs)
  have f: "format_campaign example_env indicator1
     \<lparr>ec_name = ''Foo'', ec_confidence = ''high'', ec_description = ''x'',
       ec_analyst = ''alice'', ec_date = 9\<rparr> ''alice'' = ''Foo:high''"
    by (simp add: example_env_def)
  from campaign_edit_outcomes [of example_env example_state "''Actor''" "''1''" "''Foo''"
      "''high''" "''x''" 9 False "''alice''" indicator1] a
  have 1: "campaign_edit example_env example_state ''Actor'' ''1'' ''Foo'' ''high'' ''x'' 9 False
      ''alice'' = (\<lparr>success = False, message = Some (Str ''Cannot find Actor.''),
         rid = None, html = None\<rparr>, example_state)" by simp
  from campaign_edit_outcomes [of example_env example_state "''Indicator''" "''1''" "''Foo''"
      "''high''" "''x''" 9 False "''alice''" indicator1] b c v f
  have 2: "fst (campaign_edit example_env example_state ''Indicator'' ''1'' ''Foo'' ''high'' ''x'' 9
          False ''alice'')
     = \<lparr>success = True, message = None, rid = None, html = Some ''Foo:high''\<rparr>" by simp
  from 1 2 show ?thesis by simp
qed

text \<open>
  C6 as stated fails: Indicator 1 resolves and holds no attribution, and editing the
  attribution of 'Foo' on it reports success.
\<close>

theorem campaign_edit_absent_entry_counterexample:
  "class_from_id example_env example_state ''Indicator'' ''1'' = Some indicator1
   \<and> \<not> has_campaign ''Foo'' indicator1
   \<and> success (fst (campaign_edit example_env example_state ''Indicator'' ''1'' ''Foo'' ''high''
         ''x'' 9 False ''alice''))"
  by (simp add: campaign_edit_def edit_campaign_m_def class_from_id_def objects_first_def
      has_campaign_def save_def Let_def example_defs)

text \<open>
  C7 (amended). \<^verbatim>\<open>campaign_remove\<close> fails with 'Cannot find <ctype>.' when the target does
  not resolve, and leaves the store as it was. When the target resolves and holds no
  entry of the campaign's name, the handler drops what \<^verbatim>\<open>remove_campaign\<close> reports: it
  saves the unchanged target and reports success when the save is accepted, the
  'Invalid value' failure when it is rejected. No result on a resolved target carries
  the entry-level not-found.
\<close>

theorem campaign_remove_outcomes:
  "(class_from_id env st ctype oid = None \<longrightarrow>
      campaign_remove env st ctype oid n a
        = (\<lparr>success = False, message = Some (Str (''Cannot find '' @ ctype @ ''.'')),
            rid = None, html = None\<rparr>, st))
   \<and> (class_from_id env st ctype oid = Some ob \<and> \<not> has_campaign n ob \<longrightarrow>
      campaign_remove env st ctype oid n a
        = (case save env ob st of
             Inr st' \<Rightarrow> (\<lparr>success = True, message = None, rid = None, html = None\<rparr>, st')
           | Inl e \<Rightarrow> (\<lparr>success = False, message = Some (Str (''Invalid value: '' @ e)),
                         rid = None, html = None\<rparr>, st)))
   \<and> (class_from_id env st ctype oid \<noteq> None \<longrightarrow>
      message (fst (campaign_remove env st ctype oid n a)) \<noteq> Some (Note EntryNotFound))"
  by (auto simp: campaign_remove_def remove_campaign_m_def failure_def Let_def
      split: option.splits sum.splits)

theorem campaign_remove_outcomes_witness:
  "campaign_remove example_env example_state ''Actor'' ''1'' ''Foo'' ''alice''
     = (\<lparr>success = False, message = Some (Str ''Cannot find Actor.''),
         rid = None, html = None\<rparr>, example_state)
   \<and> fst (campaign_remove example_env example_state ''Indicator'' ''1'' ''Foo'' ''alice'')
     = \<lparr>success = True, message = None, rid = None, html = None\<rparr>"
proof -
  have a: "class_from_id example_env example_state ''Actor'' ''1'' = None"
    by (simp add: class_from_id_def example_env_def)
  have b: "class_from_id example_env example_state ''Indicator'' ''1'' = Some indicator1"
    by (simp add: class_from_id_def objects_first_def example_defs)
  have c: "\<not> has_campaign ''Foo'' indicator1"
    by (simp add: has_campaign_def indicator1_def)
  have v: "validate example_env indicator1 = None" by (simp add: example_defs)
  from campaign_remove_outcomes [of example_env example_state "''Actor''" "''1''" "''Foo''"
      "''alice''" indicator1] a
  have 1: "campaign_remove example_env example_state ''Actor'' ''1'' ''Foo'' ''alice''
     = (\<lparr>success = False, message = Some (Str ''Cannot find Actor.''),
         rid = None, html = None\<rparr>, example_state)" by simp
  from campaign_remove_outcomes [of example_env example_state "''Indicator''" "''1''" "''Foo''"
      "''alice''" indicator1] b c v
  have 2: "fst (campaign_remove example_env example_state ''Indicator'' ''1'' ''Foo'' ''alice'')
     = \<lparr>success = True, message = None, rid = None, html = None\<rparr>"
    by (simp add: save_def)
  from 1 2 show ?thesis by simp
qed

text \<open>
  C7 as stated fails: removing 'Foo' from Indicator 1, which holds no attribution,
  reports success.
\<close>

theorem campaign_remove_absent_entry_counterexample:
  "class_from_id example_env example_state ''Indicator'' ''1'' = Some indicator1
   \<and> \<not> has_campaign ''Foo'' indicator1
   \<and> success (fst (campaign_remove example_env example_state ''Indicator'' ''1'' ''Foo''
         ''alice''))"
  by (simp add: campaign_remove_def remove_campaign_m_def class_from_id_def objects_first_def
      has_campaign_def save_def Let_def example_defs)

text \<open>
  C5. When a Campaign of that name is stored, \<^verbatim>\<open>add_campaign\<close> returns the failure
  'Campaign already exists.' with the id of the first stored Campaign of that name, and
  the store it returns is the store it was given: no document is changed or added.
\<close>

theorem add_campaign_already_exists:
  assumes "c \<in> set (campaigns st)" "c_name c = name"
  shows "\<exists>existing. find (\<lambda>c. c_name c = name) (campaigns st) = Some existing
     \<and> add_campaign env st name description aliases analyst bucket_list ticket
         related_id related_type relationship_type
       = (Inr \<lparr>success = False, message = Some (StrList [''Campaign already exists.'']),
                rid = Some (str_id existing), html = None\<rparr>, st)"
proof (cases "find (\<lambda>c. c_name c = name) (campaigns st)")
  case None
  with assms show ?thesis by (auto simp: find_None_iff)
next
  case (Some existing)
  then show ?thesis by (simp add: add_campaign_def)
qed

theorem add_campaign_already_exists_witness:
  "add_campaign example_env example_state ''Foo'' ''second'' (PyStr (code_points ''x, y''))
       ''bob'' (PyStr (code_points ''tag'')) PyNone None None None
   = (Inr \<lparr>success = False, message = Some (StrList [''Campaign already exists.'']),
            rid = Some ''7'', html = None\<rparr>, example_state)"
proof -
  have "campaign_foo \<in> set (campaigns example_state)" "c_name campaign_foo = ''Foo''"
    by (simp_all add: example_defs)
  from add_campaign_already_exists [OF this, of example_env "''second''"
      "PyStr (code_points ''x, y'')" "''bob''" "PyStr (code_points ''tag'')" PyNone None None
      None]
  show ?thesis by (simp add: example_defs str_id_def)
qed

text \<open>
  C3, at an input where the code departs from it. The name 'Bar' is free and the related
  reference (Indicator, 404) does not resolve: line 345 assigns to \<^verbatim>\<open>retVal\<close>, which is
  bound nowhere, so \<^verbatim>\<open>add_campaign\<close> raises \<^verbatim>\<open>NameError\<close> to its caller where it set
  out to return the failure 'Related Object not found.'.
\<close>

theorem add_campaign_unresolved_related_raises:
  "add_campaign example_env example_state ''Bar'' ''new'' (PyStr (code_points ''a, b''))
       ''alice'' PyNone PyNone (Some ''404'') (Some ''Indicator'') (Some ''Related To'')
   = (Inl (NameError ''retVal''), example_state)"
  by (simp add: add_campaign_def adjust_aliases_def class_from_id_def objects_first_def
      example_defs)

text \<open>
  C8. Merge disabled. When the target \<^verbatim>\<open>campaign_add\<close> works on already holds an entry of
  the campaign's name and \<^verbatim>\<open>update\<close> is false, the object in memory after the call is the
  object before it: the entry and every other field are as they were. When the store
  accepts the save of the target, the call reports success with the mutator's message
  and the stored target is that same object; when it rejects it and nothing is
  propagated, the store is as it was.
\<close>

theorem campaign_add_no_update_frame:
  assumes "target_of env st ctype oid obj = Some ob" "has_campaign n ob"
  shows "fst (snd (campaign_add env now st n conf d rel a ctype oid obj False)) = Some ob
     \<and> (validate env ob = None \<longrightarrow>
          fst (campaign_add env now st n conf d rel a ctype oid obj False)
            = \<lparr>success = True, message = Some (Note Assigned), rid = None,
                html = Some (format_campaign env ob \<lparr>ec_name = n, ec_confidence = conf,
                  ec_description = d, ec_analyst = a, ec_date = now\<rparr> a)\<rparr>
          \<and> objects_first (snd (snd (campaign_add env now st n conf d rel a ctype oid obj False)))
               (obj_type ob) (obj_id ob) = Some ob)
     \<and> (\<not> rel \<and> validate env ob \<noteq> None \<longrightarrow>
          snd (snd (campaign_add env now st n conf d rel a ctype oid obj False)) = st)"
proof -
  let ?item = "\<lparr>ec_name = n, ec_confidence = conf,
                  ec_description = d, ec_analyst = a, ec_date = now\<rparr>"
  let ?R = "campaign_add env now st n conf d rel a ctype oid obj False"
  let ?st' = "if rel then campaign_addto_related env ob ?item a st else st"
  have m: "add_campaign_m env ?item False ob = (\<lparr>m_success = True, m_message = Note Assigned\<rparr>, ob)"
    using assms(2) by (simp add: add_campaign_m_def)
  have R: "?R = (case save env ob ?st' of
                 Inr st'' \<Rightarrow>
                   (\<lparr>success = True, message = Some (Note Assigned), rid = None,
                     html = Some (format_campaign env ob ?item a)\<rparr>, Some ob, st'')
               | Inl e \<Rightarrow> (failure (Str (''Invalid value: '' @ e)), Some ob, ?st'))"
    by (simp add: campaign_add_resolved [OF assms(1)] m Let_def split: sum.splits)
  have 1: "fst (snd ?R) = Some ob" unfolding R by (simp split: sum.splits)
  have 2: "fst ?R = \<lparr>success = True, message = Some (Note Assigned), rid = None,
                html = Some (format_campaign env ob ?item a)\<rparr>
          \<and> objects_first (snd (snd ?R)) (obj_type ob) (obj_id ob) = Some ob"
    if v: "validate env ob = None"
  proof -
    from v obtain st'' where sv: "save env ob ?st' = Inr st''" by (simp add: save_def)
    from objects_first_save_same [OF sv] sv show ?thesis unfolding R by simp
  qed
  have 3: "snd (snd ?R) = st" if "\<not> rel" "validate env ob \<noteq> None"
    using that unfolding R by (auto simp: save_def split: option.splits)
  from 1 2 3 show ?thesis by blast
qed

theorem campaign_add_no_update_frame_witness:
  "fst (snd (campaign_add example_env 8 attributed_state ''Foo'' ''high'' ''again'' False ''bob''
         (Some ''Indicator'') (Some ''1'') None False)) = Some indicator1_foo
   \<and> fst (campaign_add example_env 8 attributed_state ''Foo'' ''high'' ''again'' False ''bob''
         (Some ''Indicator'') (Some ''1'') None False)
       = \<lparr>success = True, message = Some (Note Assigned), rid = None,
           html = Some ''Foo:high''\<rparr>
   \<and> objects_first (snd (snd (campaign_add example_env 8 attributed_state ''Foo'' ''high''
         ''again'' False ''bob'' (Some ''Indicator'') (Some ''1'') None False)))
         ''Indicator'' ''1'' = Some indicator1_foo"
proof -
  have t: "target_of example_env attributed_state (Some ''Indicator'') (Some ''1'') None
      = Some indicator1_foo"
    by (simp add: target_of_def class_from_id_def objects_first_def example_defs)
  have h: "has_campaign ''Foo'' indicator1_foo"
    by (simp add: has_campaign_def example_defs)
  have v: "validate example_env indicator1_foo = None" by (simp add: example_defs)
  have k: "obj_type indicator1_foo = ''Indicator''" "obj_id indicator1_foo = ''1''"
    by (simp_all add: example_defs)
  have f: "format_campaign example_env indicator1_foo
       \<lparr>ec_name = ''Foo'', ec_confidence = ''high'', ec_description = ''again'',
         ec_analyst = ''bob'', ec_date = 8\<rparr> ''bob'' = ''Foo:high''"
    by (simp add: example_env_def)
  from campaign_add_no_update_frame [OF t h, of 8 "''high''" "''again''" False "''bob''"] v k f
  show ?thesis by simp
qed





text \<open>
  C10. An aliases argument that is neither a string nor a list, such as \<^verbatim>\<open>None\<close>, takes
  the \<^verbatim>\<open>else\<close> branch of line 337: the normalised list is empty, and \<^verbatim>\<open>add_campaign\<close> does
  exactly what it does for the empty list of aliases. A call that reports success has
  stored the Campaign with no aliases; and the call does report success whenever the name
  is free, no related object is referenced and the store accepts a Campaign of that name.
\<close>

theorem malformed_aliases_are_empty:
  "((\<forall>s. aliases \<noteq> PyStr s) \<and> (\<forall>xs. aliases \<noteq> PyList xs) \<longrightarrow>
      adjust_aliases aliases = Inr []
      \<and> add_campaign env st name descr aliases analyst bl tk ri rt rlt
          = add_campaign env st name descr (PyList []) analyst bl tk ri rt rlt
      \<and> (add_campaign env st name descr aliases analyst bl tk ri rt rlt = (Inr r, st')
            \<and> success r
          \<longrightarrow> (\<exists>c'. find (\<lambda>d. c_name d = name) (campaigns st') = Some c'
                 \<and> c_aliases c' = []))
      \<and> ((\<forall>d\<in>set (campaigns st). c_name d \<noteq> name) \<and> (ri = None \<or> rt = None)
            \<and> (\<forall>x. c_name x = name \<longrightarrow> validate_campaign env x = None)
          \<longrightarrow> (\<exists>r' st''. add_campaign env st name descr aliases analyst bl tk ri rt rlt
                   = (Inr r', st'') \<and> success r')))
   \<and> adjust_aliases PyNone = Inr []"
proof -
  have main: "adjust_aliases aliases = Inr []
      \<and> add_campaign env st name descr aliases analyst bl tk ri rt rlt
          = add_campaign env st name descr (PyList []) analyst bl tk ri rt rlt
      \<and> (add_campaign env st name descr aliases analyst bl tk ri rt rlt = (Inr r, st')
            \<and> success r
          \<longrightarrow> (\<exists>c'. find (\<lambda>d. c_name d = name) (campaigns st') = Some c'
                 \<and> c_aliases c' = []))
      \<and> ((\<forall>d\<in>set (campaigns st). c_name d \<noteq> name) \<and> (ri = None \<or> rt = None)
            \<and> (\<forall>x. c_name x = name \<longrightarrow> validate_campaign env x = None)
          \<longrightarrow> (\<exists>r' st''. add_campaign env st name descr aliases analyst bl tk ri rt rlt
                   = (Inr r', st'') \<and> success r'))"
    if other: "\<forall>s. aliases \<noteq> PyStr s" "\<forall>xs. aliases \<noteq> PyList xs"
  proof -
    have a: "adjust_aliases aliases = Inr []" using other by (rule adjust_aliases_other)
    have b: "add_campaign env st name descr aliases analyst bl tk ri rt rlt
          = add_campaign env st name descr (PyList []) analyst bl tk ri rt rlt"
    proof (rule add_campaign_aliases_cong)
      have "adjust_aliases (PyList []) = Inr []" by (simp add: adjust_aliases_def)
      with a show "adjust_aliases aliases = adjust_aliases (PyList [])" by simp
    qed
    have c: "\<exists>c'. find (\<lambda>d. c_name d = name) (campaigns st') = Some c' \<and> c_aliases c' = []"
      if "add_campaign env st name descr aliases analyst bl tk ri rt rlt = (Inr r, st')"
        "success r"
      using add_campaign_created [OF that] a by auto
    have d: "\<exists>r' st''. add_campaign env st name descr aliases analyst bl tk ri rt rlt
                   = (Inr r', st'') \<and> success r'"
      if "\<forall>d\<in>set (campaigns st). c_name d \<noteq> name" "ri = None \<or> rt = None"
        "\<forall>x. c_name x = name \<longrightarrow> validate_campaign env x = None"
      using that(1,2) a that(3) by (rule add_campaign_succeeds)
    from a b c d show ?thesis by blast
  qed
  have none: "adjust_aliases PyNone = Inr []" by (simp add: adjust_aliases_def)
  from main none show ?thesis by blast
qed

theorem malformed_aliases_are_empty_witness:
  "adjust_aliases PyNone = Inr []
   \<and> add_campaign example_env example_state ''Bar'' ''new'' PyNone ''alice'' PyNone PyNone
        None None None
      = add_campaign example_env example_state ''Bar'' ''new'' (PyList []) ''alice'' PyNone
        PyNone None None None
   \<and> (\<exists>r' st''. add_campaign example_env example_state ''Bar'' ''new'' PyNone ''alice''
          PyNone PyNone None None None = (Inr r', st'') \<and> success r')
   \<and> (\<exists>c'. find (\<lambda>d. c_name d = ''Bar'')
          (campaigns (snd (add_campaign example_env example_state ''Bar'' ''new'' PyNone
             ''alice'' PyNone PyNone None None None))) = Some c'
        \<and> c_aliases c' = [])"
proof -
  let ?r = "\<lparr>success = True, message = Some (Str ''Campaign created successfully!''),
             rid = Some ''77'', html = None\<rparr>"
  let ?A = "add_campaign example_env example_state ''Bar'' ''new'' PyNone ''alice'' PyNone
             PyNone None None None"
  have a: "fst ?A = Inr ?r" by (simp add: create_defs example_defs)
  have a': "?A = (Inr ?r, snd ?A)" using a by (metis prod.collapse)
  have ok: "success ?r" by simp
  have o: "(\<forall>s. PyNone \<noteq> PyStr s) \<and> (\<forall>xs. PyNone \<noteq> PyList xs)" by simp
  have free: "\<forall>d\<in>set (campaigns example_state). c_name d \<noteq> ''Bar''"
    by (simp add: example_defs)
  have val: "\<forall>x. c_name x = ''Bar'' \<longrightarrow> validate_campaign example_env x = None"
    by (simp add: example_env_def)
  note inst = malformed_aliases_are_empty [of PyNone example_env example_state "''Bar''"
      "''new''" "''alice''" PyNone PyNone None None None ?r "snd ?A",
      THEN conjunct1, rule_format, OF o]
  note i1 = inst [THEN conjunct1]
  note i2 = inst [THEN conjunct2, THEN conjunct1]
  note i3 = inst [THEN conjunct2, THEN conjunct2, THEN conjunct1, rule_format,
      OF conjI [OF a' ok]]
  have "(\<forall>d\<in>set (campaigns example_state). c_name d \<noteq> ''Bar'') \<and> ((None :: string option) = None \<or> (None :: string option) = None)
            \<and> (\<forall>x. c_name x = ''Bar'' \<longrightarrow> validate_campaign example_env x = None)"
    using free val by simp
  note i4 = inst [THEN conjunct2, THEN conjunct2, THEN conjunct2, rule_format, OF this]
  from i1 i2 i4 i3 show ?thesis by (intro conjI)
qed

end
